theory Spec2Isabelle
  imports Complex_Main "HOL-Library.Word"
begin

section \<open>Python values, exceptions and external calls\<close>

text \<open>
  The service (\<^verbatim>\<open>hf_kyc_space/app.py\<close>) is a Flask application: three POST handlers
  that decode an image, call pretrained models and build a JSON response. The values that
  travel through it are the values of a parsed JSON body, plus byte strings.
  A float, of Python or of numpy, is represented by the real number it denotes (NaN and
  the infinities are left out), and an operation on floats rounds its exact result as
  the format does; a dict with string keys is an association list read with \<open>map_of\<close>.
\<close>

type_synonym byte = "8 word"

datatype pyval =
    PNone
  | PBool bool
  | PInt int
  | PFloat real
  | PStr string
  | PBytes "byte list"
  | PList "pyval list"
  | PDict "(string \<times> pyval) list"

text \<open>Python's truth value of an object, as \<^verbatim>\<open>not x\<close> tests it.\<close>

fun truthy :: "pyval \<Rightarrow> bool" where
  "truthy PNone = False"
| "truthy (PBool b) = b"
| "truthy (PInt i) = (i \<noteq> 0)"
| "truthy (PFloat r) = (r \<noteq> 0)"
| "truthy (PStr s) = (s \<noteq> [])"
| "truthy (PBytes bs) = (bs \<noteq> [])"
| "truthy (PList xs) = (xs \<noteq> [])"
| "truthy (PDict kvs) = (kvs \<noteq> [])"

fun type_name :: "pyval \<Rightarrow> string" where
  "type_name PNone = ''NoneType''"
| "type_name (PBool b) = ''bool''"
| "type_name (PInt i) = ''int''"
| "type_name (PFloat r) = ''float''"
| "type_name (PStr s) = ''str''"
| "type_name (PBytes bs) = ''bytes''"
| "type_name (PList xs) = ''list''"
| "type_name (PDict kvs) = ''dict''"

subsection \<open>Single-precision arithmetic\<close>

text \<open>
  The detector's boxes are float32 tensors, and numpy computes on float32 scalars in
  float32: the exact result of an operation is rounded to the nearest number with a
  24-bit significand, a tie going to the even significand. \<open>expo\<close> is the binary
  exponent of a number, held at \<open>-126\<close> for the subnormal range; a number whose
  magnitude reaches \<open>2\<^sup>1\<^sup>2\<^sup>8\<close> would round to an infinity, which is left out.
\<close>

definition pow2 :: "int \<Rightarrow> real" where
  "pow2 k = (if 0 \<le> k then 2 ^ nat k else 1 / 2 ^ nat (- k))"

definition expo :: "real \<Rightarrow> int" where
  "expo x = max (- 126) \<lfloor>log 2 \<bar>x\<bar>\<rfloor>"

definition round_even :: "real \<Rightarrow> int" where
  "round_even q =
     (let f = \<lfloor>q\<rfloor>; r = q - real_of_int f
      in if r < 1 / 2 then f
         else if 1 / 2 < r then f + 1
         else if even f then f else f + 1)"

definition f32 :: "real \<Rightarrow> real" where
  "f32 x =
     (if x = 0 then 0
      else real_of_int (round_even (x / pow2 (expo x - 23))) * pow2 (expo x - 23))"


text \<open>
  The Python literal \<^verbatim>\<open>0.4\<close> is a double: the double nearest to \<open>4/10\<close>, which lies
  a little above it.
\<close>

definition literal_0_4 :: real where
  "literal_0_4 = 3602879701896397 / 9007199254740992"

text \<open>An exception is its class name and the text \<^verbatim>\<open>str(e)\<close> gives.\<close>

datatype exc = Exc (exc_class: string) (exc_str: string)

definition no_attribute :: "pyval \<Rightarrow> string \<Rightarrow> exc" where
  "no_attribute v a =
     Exc ''AttributeError''
       ([CHR 0x27] @ type_name v @ [CHR 0x27] @ '' object has no attribute ''
          @ [CHR 0x27] @ a @ [CHR 0x27])"

text \<open>
  A decoded image is a numpy array of shape \<open>(height, width, 3)\<close> of unsigned bytes.
  \<^verbatim>\<open>cv2.imdecode\<close> returns \<^verbatim>\<open>None\<close> instead of an array when it cannot decode the
  buffer, so every place that holds an image holds an \<open>image option\<close>.
\<close>

type_synonym pixel = "byte \<times> byte \<times> byte"

record image =
  height :: nat
  width :: nat
  pixels :: "pixel list list"


text \<open>
  One detection of the YOLO model: \<^verbatim>\<open>box.xyxy[0]\<close>, \<^verbatim>\<open>box.conf[0]\<close> and
  \<^verbatim>\<open>box.cls[0]\<close>, float32 tensors all three. The model returns a list of results,
  each with its \<^verbatim>\<open>boxes\<close>.
\<close>

record box =
  xyxy :: "real \<times> real \<times> real \<times> real"
  conf :: real
  cls :: real

type_synonym results = "box list list"

text \<open>The dict \<^verbatim>\<open>DeepFace.verify\<close> returns, with the three keys the handler reads.\<close>

record verification =
  verified :: bool
  distance :: real
  threshold :: real

text \<open>
  The libraries the module calls are not part of the repository. They are parameters of the
  model: each is a function that returns a value or raises.
\<close>

record libs =
  b64decode :: "string \<Rightarrow> exc + byte list"
  frombuffer :: "pyval \<Rightarrow> exc + byte list"
  imdecode :: "byte list \<Rightarrow> exc + image option"
  yolo_model :: "image option \<Rightarrow> exc + results"
  names :: "int \<Rightarrow> exc + string"
  readtext :: "image option \<Rightarrow> exc + string list"
  DeepFace_verify :: "image option \<Rightarrow> image option \<Rightarrow> exc + verification"

text \<open>
  Every call into a library is recorded, in order, so that a theorem can say which calls a
  handler made before it answered.
\<close>

datatype event =
    B64Decode string
  | FromBuffer pyval
  | ImDecode "byte list"
  | Detect "image option"
  | ReadText "image option"
  | FaceVerify "image option" "image option"

type_synonym 'a run = "(exc + 'a) \<times> event list"

definition ret :: "'a \<Rightarrow> 'a run" where
  "ret x = (Inr x, [])"

definition raise :: "exc \<Rightarrow> 'a run" where
  "raise e = (Inl e, [])"

definition pure :: "exc + 'a \<Rightarrow> 'a run" where
  "pure r = (r, [])"

definition call :: "event \<Rightarrow> exc + 'a \<Rightarrow> 'a run" where
  "call ev r = (r, [ev])"

definition and_then :: "'a run \<Rightarrow> ('a \<Rightarrow> 'b run) \<Rightarrow> 'b run" where
  "and_then m f =
     (case m of
        (Inl e, t) \<Rightarrow> (Inl e, t)
      | (Inr x, t) \<Rightarrow> (case f x of (r, t') \<Rightarrow> (r, t @ t')))"

section \<open>Helper functions\<close>

subsection \<open>\<^verbatim>\<open>decode_image\<close>\<close>

text \<open>\<^verbatim>\<open>s.split(sep)\<close> for a one-character separator: every occurrence splits.\<close>

fun split :: "char \<Rightarrow> string \<Rightarrow> string list" where
  "split c [] = [[]]"
| "split c (x # xs) =
     (if x = c then [] # split c xs
      else (case split c xs of [] \<Rightarrow> [[x]] | w # ws \<Rightarrow> (x # w) # ws))"

text \<open>\<^verbatim>\<open>xs[i]\<close> for \<open>i \<ge> 0\<close>: IndexError out of range.\<close>

definition index :: "'a list \<Rightarrow> nat \<Rightarrow> exc + 'a" where
  "index xs i =
     (if i < length xs then Inr (xs ! i) else Inl (Exc ''IndexError'' ''list index out of range''))"

text \<open>
  Lines 38 and 39: a string with a comma in it is replaced by element 1 of its split at
  commas; anything else is left as it is.
\<close>

definition strip_header :: "pyval \<Rightarrow> exc + pyval" where
  "strip_header image_input =
     (case image_input of
        PStr s \<Rightarrow>
          (if CHR '','' \<in> set s then map_sum id PStr (index (split (CHR '','') s) 1)
           else Inr image_input)
      | _ \<Rightarrow> Inr image_input)"

text \<open>Lines 41 to 44: a string is base64-decoded, anything else is taken to be bytes.\<close>

definition to_bytes :: "libs \<Rightarrow> pyval \<Rightarrow> pyval run" where
  "to_bytes L image_input =
     (case image_input of
        PStr s \<Rightarrow> and_then (call (B64Decode s) (b64decode L s)) (\<lambda>bs. ret (PBytes bs))
      | _ \<Rightarrow> ret image_input)"

definition decode_image_try :: "libs \<Rightarrow> pyval \<Rightarrow> image option run" where
  "decode_image_try L image_input =
     and_then (pure (strip_header image_input)) (\<lambda>image_input.
     and_then (to_bytes L image_input) (\<lambda>img_bytes.
     and_then (call (FromBuffer img_bytes) (frombuffer L img_bytes)) (\<lambda>img_arr.
     and_then (call (ImDecode img_arr) (imdecode L img_arr)) (\<lambda>img.
     ret img))))"

definition decode_image :: "libs \<Rightarrow> pyval \<Rightarrow> image option run" where
  "decode_image L image_input =
     (case decode_image_try L image_input of
        (Inl e, t) \<Rightarrow> (Inl (Exc ''ValueError'' (''Invalid image input: '' @ exc_str e)), t)
      | (Inr img, t) \<Rightarrow> (Inr img, t))"

subsection \<open>\<^verbatim>\<open>crop_card\<close>\<close>

text \<open>\<^verbatim>\<open>int(x)\<close> of a float truncates towards zero.\<close>

definition py_int :: "real \<Rightarrow> int" where
  "py_int x = (if 0 \<le> x then \<lfloor>x\<rfloor> else \<lceil>x\<rceil>)"

text \<open>
  The area of a box, as the loop computes it: \<^verbatim>\<open>(x2 - x1) * (y2 - y1)\<close> on numpy
  float32 scalars, each of the three operations rounded to float32.
\<close>

definition area :: "box \<Rightarrow> real" where
  "area b = (case xyxy b of (x1, y1, x2, y2) \<Rightarrow> f32 (f32 (x2 - x1) * f32 (y2 - y1)))"

type_synonym best = "(int \<times> int \<times> int \<times> int) option \<times> real"

text \<open>The body of the inner loop, on the pair \<open>(best_box, max_area)\<close>.\<close>

definition box_step :: "best \<Rightarrow> box \<Rightarrow> best" where
  "box_step st b =
     (case xyxy b of (x1, y1, x2, y2) \<Rightarrow>
        (if area b > snd st then (Some (py_int x1, py_int y1, py_int x2, py_int y2), area b)
         else st))"

definition scan_boxes :: "results \<Rightarrow> best" where
  "scan_boxes rs = foldl (\<lambda>st r. foldl box_step st r) (None, 0) rs"

text \<open>
  A slice bound \<open>i\<close> on an axis of length \<open>n\<close>: a negative bound counts from the end, and
  every bound is clipped to the axis.
\<close>

definition slice_index :: "nat \<Rightarrow> int \<Rightarrow> nat" where
  "slice_index n i = (if i < 0 then nat (max (i + int n) 0) else min (nat i) n)"

text \<open>\<^verbatim>\<open>image[y1:y2, x1:x2]\<close>.\<close>

definition crop :: "image \<Rightarrow> int \<Rightarrow> int \<Rightarrow> int \<Rightarrow> int \<Rightarrow> image" where
  "crop img y1 y2 x1 x2 =
     (let ys = slice_index (height img) y1; ye = slice_index (height img) y2;
          xs = slice_index (width img) x1; xe = slice_index (width img) x2
      in \<lparr>height = ye - ys, width = xe - xs,
          pixels = map (\<lambda>row. take (xe - xs) (drop xs row))
                     (take (ye - ys) (drop ys (pixels img)))\<rparr>)"

definition crop_card :: "libs \<Rightarrow> image option \<Rightarrow> image option run" where
  "crop_card L img =
     and_then (call (Detect img) (yolo_model L img)) (\<lambda>results.
       (case fst (scan_boxes results) of
          Some (x1, y1, x2, y2) \<Rightarrow>
            (case img of
               None \<Rightarrow> raise (no_attribute PNone ''shape'')
             | Some arr \<Rightarrow>
                 (let h = int (height arr); w = int (width arr);
                      x1 = max 0 (x1 - 10);
                      y1 = max 0 (y1 - 10);
                      x2 = min w (x2 + 10);
                      y2 = min h (y2 + 10)
                  in ret (Some (crop arr y1 y2 x1 x2))))
        | None \<Rightarrow> ret img))"

section \<open>Endpoints\<close>

record response =
  status :: nat
  body :: pyval

definition jsonify :: "(string \<times> pyval) list \<Rightarrow> nat \<Rightarrow> response" where
  "jsonify d code = \<lparr>status = code, body = PDict d\<rparr>"

text \<open>\<^verbatim>\<open>data.get(key)\<close>: only a dict has the method; a missing key gives \<^verbatim>\<open>None\<close>.\<close>

definition get :: "pyval \<Rightarrow> string \<Rightarrow> exc + pyval" where
  "get data k =
     (case data of
        PDict kvs \<Rightarrow> Inr (case map_of kvs k of None \<Rightarrow> PNone | Some v \<Rightarrow> v)
      | _ \<Rightarrow> Inl (no_attribute data ''get''))"

text \<open>
  The \<^verbatim>\<open>except Exception\<close> clause that closes every handler. A handler takes what
  \<^verbatim>\<open>request.json\<close> gives: the parsed body, or the exception Flask raises for a body
  that is not JSON.
\<close>

definition catch_all :: "response run \<Rightarrow> response \<times> event list" where
  "catch_all m =
     (case m of
        (Inl e, t) \<Rightarrow> (jsonify [(''error'', PStr (exc_str e))] 500, t)
      | (Inr r, t) \<Rightarrow> (r, t))"

definition verify_cnic_try :: "libs \<Rightarrow> exc + pyval \<Rightarrow> response run" where
  "verify_cnic_try L request_json =
     and_then (pure request_json) (\<lambda>data.
     and_then (pure (get data ''image'')) (\<lambda>image_data.
       if \<not> truthy image_data then ret (jsonify [(''error'', PStr ''No image provided'')] 400)
       else
         and_then (decode_image L image_data) (\<lambda>img.
         and_then (crop_card L img) (\<lambda>cropped.
         and_then (call (ReadText cropped) (readtext L cropped)) (\<lambda>text_results.
         ret (jsonify [(''raw_text'', PList (map PStr text_results))] 200))))))"

definition verify_cnic :: "libs \<Rightarrow> exc + pyval \<Rightarrow> response \<times> event list" where
  "verify_cnic L request_json = catch_all (verify_cnic_try L request_json)"

definition face_verify_try :: "libs \<Rightarrow> exc + pyval \<Rightarrow> response run" where
  "face_verify_try L request_json =
     and_then (pure request_json) (\<lambda>data.
     and_then (pure (get data ''image1'')) (\<lambda>img1_data.
     and_then (pure (get data ''image2'')) (\<lambda>img2_data.
       if \<not> truthy img1_data \<or> \<not> truthy img2_data
       then ret (jsonify [(''error'', PStr ''image1 and image2 required'')] 400)
       else
         and_then (decode_image L img1_data) (\<lambda>img1.
         and_then (decode_image L img2_data) (\<lambda>img2.
         and_then (call (FaceVerify img1 img2) (DeepFace_verify L img1 img2)) (\<lambda>result.
         ret (jsonify [(''verified'', PBool (verified result)),
                       (''distance'', PFloat (distance result)),
                       (''threshold'', PFloat (threshold result))] 200)))))))"

definition face_verify :: "libs \<Rightarrow> exc + pyval \<Rightarrow> response \<times> event list" where
  "face_verify L request_json = catch_all (face_verify_try L request_json)"

text \<open>
  The two loops of \<^verbatim>\<open>shop_verify\<close>, on the list \<^verbatim>\<open>detected_objects\<close>. The class name
  is looked up before the confidence is tested, so a lookup that raises ends the loop
  whatever the confidence. \<^verbatim>\<open>float(box.conf[0])\<close> is the float32 confidence as a
  double, the same number; it is compared with the double the literal \<^verbatim>\<open>0.4\<close> denotes.
\<close>

fun tag_boxes :: "libs \<Rightarrow> box list \<Rightarrow> string list \<Rightarrow> exc + string list" where
  "tag_boxes L [] detected_objects = Inr detected_objects"
| "tag_boxes L (b # bs) detected_objects =
     (let cls_id = py_int (cls b) in
      case names L cls_id of
        Inl e \<Rightarrow> Inl e
      | Inr cls_name \<Rightarrow>
          (if conf b > literal_0_4 then tag_boxes L bs (detected_objects @ [cls_name])
           else tag_boxes L bs detected_objects))"

fun tag_results :: "libs \<Rightarrow> results \<Rightarrow> string list \<Rightarrow> exc + string list" where
  "tag_results L [] detected_objects = Inr detected_objects"
| "tag_results L (r # rs) detected_objects =
     (case tag_boxes L r detected_objects of
        Inl e \<Rightarrow> Inl e
      | Inr detected_objects' \<Rightarrow> tag_results L rs detected_objects')"

text \<open>
  \<^verbatim>\<open>list(set(xs))\<close>: the elements of \<open>xs\<close>, each once. Python leaves the order of a
  set's elements open; the model lists them with \<open>remdups\<close>, and the theorems below speak
  of the elements only, never of their order.
\<close>

definition list_set :: "string list \<Rightarrow> string list" where
  "list_set xs = remdups xs"

definition shop_verify_try :: "libs \<Rightarrow> exc + pyval \<Rightarrow> response run" where
  "shop_verify_try L request_json =
     and_then (pure request_json) (\<lambda>data.
     and_then (pure (get data ''image'')) (\<lambda>image_data.
       if \<not> truthy image_data then ret (jsonify [(''error'', PStr ''No image provided'')] 400)
       else
         and_then (decode_image L image_data) (\<lambda>img.
         and_then (call (Detect img) (yolo_model L img)) (\<lambda>results.
         and_then (pure (tag_results L results [])) (\<lambda>detected_objects.
         and_then (call (ReadText img) (readtext L img)) (\<lambda>ocr_text.
         ret (jsonify [(''detected_objects'', PList (map PStr (list_set detected_objects))),
                       (''text_content'', PList (map PStr ocr_text))] 200)))))))"

definition shop_verify :: "libs \<Rightarrow> exc + pyval \<Rightarrow> response \<times> event list" where
  "shop_verify L request_json = catch_all (shop_verify_try L request_json)"

section \<open>A test double for the libraries\<close>

text \<open>
  Concrete stand-ins for the libraries, to run the functions above on concrete inputs:
  a decoder that knows one base64 text and one byte buffer, a detector that finds two
  boxes in one image and none elsewhere.
\<close>

definition test_image :: image where
  "test_image = \<lparr>height = 30, width = 40, pixels = replicate 30 (replicate 40 (0, 0, 0))\<rparr>"

definition blank_image :: image where
  "blank_image = \<lparr>height = 2, width = 2, pixels = replicate 2 (replicate 2 (255, 255, 255))\<rparr>"

definition big_box :: box where
  "big_box = \<lparr>xyxy = (5.5, 6.5, 25.5, 20.5), conf = 0.75, cls = 0\<rparr>"

text \<open>Two detections whose confidences are the float32 numbers next to \<open>4/10\<close>.\<close>

definition small_box :: box where
  "small_box = \<lparr>xyxy = (12, 12, 18, 18), conf = 13421772 / 33554432, cls = 63\<rparr>"




definition test_libs :: libs where
  "test_libs =
     \<lparr>b64decode = (\<lambda>s. if s = ''QUJD'' then Inr [0x41, 0x42, 0x43]
                       else Inl (Exc ''binascii.Error'' ''Incorrect padding'')),
      frombuffer = (\<lambda>v. case v of PBytes bs \<Rightarrow> Inr bs
                        | _ \<Rightarrow> Inl (Exc ''TypeError'' ''a bytes-like object is required'')),
      imdecode = (\<lambda>bs. if bs = [] then Inl (Exc ''cv2.error'' ''!buf.empty()'')
                      else if bs = [0x41, 0x42, 0x43] then Inr (Some test_image)
                      else Inr None),
      yolo_model = (\<lambda>img. if img = Some test_image then Inr [[big_box, small_box]]
                         else Inr [[]]),
      names = (\<lambda>i. if i = 0 then Inr ''person'' else if i = 63 then Inr ''laptop''
                    else Inl (Exc ''KeyError'' ''unknown class'')),
      readtext = (\<lambda>img. Inr [''CNIC'']),
      DeepFace_verify = (\<lambda>a b. Inr \<lparr>verified = True, distance = 0.25, threshold = 0.68\<rparr>)\<rparr>"


text \<open>Two more, in which a model raises on every call.\<close>

definition no_detector_libs :: libs where
  "no_detector_libs =
     test_libs\<lparr>yolo_model := (\<lambda>img. Inl (Exc ''RuntimeError'' ''detector failed''))\<rparr>"

definition no_reader_libs :: libs where
  "no_reader_libs =
     test_libs\<lparr>readtext := (\<lambda>img. Inl (Exc ''RuntimeError'' ''reader failed'')),
               DeepFace_verify := (\<lambda>a b. Inl (Exc ''ValueError'' ''face model failed''))\<rparr>"

section \<open>Notions of the specification and of the proofs\<close>

text \<open>
  The specification speaks of ``the substring after the first comma''. This definition
  follows those words; \<open>strip_header\<close> above follows the code.
\<close>

definition after_first_comma :: "string \<Rightarrow> string" where
  "after_first_comma s = tl (dropWhile (\<lambda>x. x \<noteq> CHR '','') s)"





text \<open>The integer corners \<open>crop_card\<close> keeps of a box.\<close>

definition int_box :: "box \<Rightarrow> int \<times> int \<times> int \<times> int" where
  "int_box b =
     (case xyxy b of (x1, y1, x2, y2) \<Rightarrow> (py_int x1, py_int y1, py_int x2, py_int y2))"


section \<open>Single-precision numbers\<close>

lemma pow2_powr: "pow2 k = 2 powr (real_of_int k)"
proof (cases "0 \<le> k")
  case True
  then have "real_of_int k = real (nat k)" by simp
  then have "(2::real) powr (real_of_int k) = 2 ^ nat k"
    by (simp only: powr_realpow [of 2 "nat k"] zero_less_numeral)
  with True show ?thesis by (simp add: pow2_def)
next
  case False
  then have "real_of_int k = - real (nat (- k))" by simp
  then have "(2::real) powr (real_of_int k) = inverse (2 ^ nat (- k))"
    by (simp only: powr_minus powr_realpow [of 2 "nat (- k)"] zero_less_numeral)
  with False show ?thesis by (simp add: pow2_def inverse_eq_divide)
qed

lemma expo_eq:
  assumes "pow2 k \<le> \<bar>x\<bar>" and "\<bar>x\<bar> < pow2 (k + 1)" and "- 126 \<le> k"
  shows "expo x = k"
proof -
  have "0 < pow2 k" by (simp add: pow2_powr)
  with assms(1) have pos: "0 < \<bar>x\<bar>" by linarith
  have "\<lfloor>log 2 \<bar>x\<bar>\<rfloor> = k"
    using assms(1,2) by (simp add: floor_log_eq_powr_iff [OF pos] pow2_powr)
  with assms(3) show ?thesis by (simp add: expo_def)
qed

lemma f32_at:
  assumes "pow2 k \<le> \<bar>x\<bar>" and "\<bar>x\<bar> < pow2 (k + 1)" and "- 126 \<le> k"
  shows "f32 x = real_of_int (round_even (x / pow2 (k - 23))) * pow2 (k - 23)"
proof -
  have "0 < pow2 k" by (simp add: pow2_powr)
  with assms(1) have "x \<noteq> 0" by auto
  then show ?thesis by (simp add: f32_def expo_eq [OF assms])
qed



section \<open>The image decoder\<close>

lemmas run_defs = ret_def raise_def pure_def call_def and_then_def

lemma split_first:
  "split c s = takeWhile (\<lambda>x. x \<noteq> c) s #
     (if c \<in> set s then split c (tl (dropWhile (\<lambda>x. x \<noteq> c) s)) else [])"
  by (induction s) (auto split: list.splits)

lemma split_second:
  "c \<in> set s \<Longrightarrow>
   index (split c s) 1 = Inr (takeWhile (\<lambda>x. x \<noteq> c) (tl (dropWhile (\<lambda>x. x \<noteq> c) s)))"
proof -
  assume cs: "c \<in> set s"
  let ?r = "tl (dropWhile (\<lambda>x. x \<noteq> c) s)"
  have "\<exists>ws. split c ?r = takeWhile (\<lambda>x. x \<noteq> c) ?r # ws"
    by (subst split_first) simp
  then obtain ws where r: "split c ?r = takeWhile (\<lambda>x. x \<noteq> c) ?r # ws" ..
  have "split c s = takeWhile (\<lambda>x. x \<noteq> c) s # split c ?r"
    using cs by (subst split_first) simp
  with r show ?thesis by (simp add: index_def)
qed

lemma strip_header_comma:
  "CHR '','' \<in> set s \<Longrightarrow>
   strip_header (PStr s) =
     Inr (PStr (takeWhile (\<lambda>x. x \<noteq> CHR '','') (after_first_comma s)))"
  by (simp add: strip_header_def split_second after_first_comma_def del: One_nat_def)

lemma decode_image_payload:
  "strip_header (PStr s) = Inr (PStr p) \<Longrightarrow>
   \<exists>r t. decode_image L (PStr s) = (r, B64Decode p # t)"
  by (auto simp: decode_image_def decode_image_try_def to_bytes_def run_defs
           split: sum.splits prod.splits)

text \<open>
  C1 (the decoder raises on every input that is not a valid image). The code does not:
  \<^verbatim>\<open>cv2.imdecode\<close> reports a buffer it cannot decode by returning \<^verbatim>\<open>None\<close>, not by
  raising, and \<open>decode_image\<close> hands that \<^verbatim>\<open>None\<close> to its caller. Whenever the byte
  buffer passes \<^verbatim>\<open>np.frombuffer\<close> and \<^verbatim>\<open>cv2.imdecode\<close> answers \<^verbatim>\<open>None\<close>,
  \<open>decode_image\<close> returns \<^verbatim>\<open>None\<close> as a value and raises nothing.
\<close>

theorem decode_image_returns_None:
  assumes "frombuffer L (PBytes bs) = Inr arr" and "imdecode L arr = Inr None"
  shows "decode_image L (PBytes bs) = (Inr None, [FromBuffer (PBytes bs), ImDecode arr])"
  using assms
  by (simp add: decode_image_def decode_image_try_def strip_header_def to_bytes_def run_defs)

theorem decode_image_returns_None_witness:
  "frombuffer test_libs (PBytes [1, 2, 3]) = Inr [1, 2, 3]
   \<and> imdecode test_libs [1, 2, 3] = Inr None
   \<and> decode_image test_libs (PBytes [1, 2, 3])
       = (Inr None, [FromBuffer (PBytes [1, 2, 3]), ImDecode [1, 2, 3]])"
proof -
  have a: "frombuffer test_libs (PBytes [1, 2, 3]) = Inr [1, 2, 3]"
    by (simp add: test_libs_def)
  have b: "imdecode test_libs [1, 2, 3] = Inr None"
    by (simp add: test_libs_def)
  show ?thesis using a b decode_image_returns_None [OF a b] by simp
qed

text \<open>
  C3 as the specification has it (the whole substring after the first comma is the base64
  payload) fails on a text with two commas: of \<^verbatim>\<open>x,QUJD,QUJD\<close> the code decodes
  \<^verbatim>\<open>QUJD\<close>, while the substring after the first comma is \<^verbatim>\<open>QUJD,QUJD\<close>.
\<close>

theorem payload_two_commas_counterexample:
  "CHR '','' \<in> set ''x,QUJD,QUJD''
   \<and> after_first_comma ''x,QUJD,QUJD'' = ''QUJD,QUJD''
   \<and> strip_header (PStr ''x,QUJD,QUJD'') = Inr (PStr ''QUJD'')
   \<and> strip_header (PStr ''x,QUJD,QUJD'') \<noteq> Inr (PStr (after_first_comma ''x,QUJD,QUJD''))
   \<and> snd (decode_image test_libs (PStr ''x,QUJD,QUJD''))
       = [B64Decode ''QUJD'', FromBuffer (PBytes [0x41, 0x42, 0x43]), ImDecode [0x41, 0x42, 0x43]]"
  by (simp add: strip_header_def index_def after_first_comma_def decode_image_def
        decode_image_try_def to_bytes_def run_defs test_libs_def)

text \<open>
  C3, amended: for a text with a comma in it, the base64 payload is the part of the text
  between its first comma and its second comma, or the end of the text when there is no
  second comma; the header before the first comma is discarded, and that payload is the
  first thing \<open>decode_image\<close> passes to a library. When the text has one comma only, the
  payload is the whole substring after it.
\<close>

theorem payload_between_commas:
  assumes "CHR '','' \<in> set s"
  shows "strip_header (PStr s)
           = Inr (PStr (takeWhile (\<lambda>x. x \<noteq> CHR '','') (after_first_comma s)))
       \<and> (\<exists>r t. decode_image L (PStr s)
             = (r, B64Decode (takeWhile (\<lambda>x. x \<noteq> CHR '','') (after_first_comma s)) # t))
       \<and> (CHR '','' \<notin> set (after_first_comma s)
            \<longrightarrow> strip_header (PStr s) = Inr (PStr (after_first_comma s)))"
  using assms decode_image_payload [OF strip_header_comma [OF assms], of L]
  by (auto simp: strip_header_comma)

theorem payload_between_commas_witness:
  "CHR '','' \<in> set ''data:image/png;base64,QUJD''
   \<and> CHR '','' \<notin> set (after_first_comma ''data:image/png;base64,QUJD'')
   \<and> strip_header (PStr ''data:image/png;base64,QUJD'') = Inr (PStr ''QUJD'')
   \<and> (\<exists>r t. decode_image test_libs (PStr ''data:image/png;base64,QUJD'')
         = (r, B64Decode ''QUJD'' # t))"
  using payload_between_commas [of "''data:image/png;base64,QUJD''" test_libs]
  by (simp add: after_first_comma_def)

section \<open>The card localizer\<close>

lemma foldl_nested: "foldl (\<lambda>st r. foldl f st r) a rs = foldl f a (concat rs)"
  by (induction rs arbitrary: a) simp_all

lemma scan_boxes_concat: "scan_boxes rs = foldl box_step (None, 0) (concat rs)"
  by (simp add: scan_boxes_def foldl_nested)

lemma box_step_gt: "area b > snd st \<Longrightarrow> box_step st b = (Some (int_box b), area b)"
  by (simp add: box_step_def int_box_def split: prod.splits)

lemma box_step_le: "\<not> area b > snd st \<Longrightarrow> box_step st b = st"
  by (simp add: box_step_def split: prod.splits)










lemma area_eval:
  "xyxy b = (x1, y1, x2, y2) \<Longrightarrow> f32 (x2 - x1) = w \<Longrightarrow> f32 (y2 - y1) = h \<Longrightarrow>
   f32 (w * h) = a \<Longrightarrow> area b = a"
  by (simp add: area_def)







text \<open>
  C5: when the detector returns no box at all, \<open>crop_card\<close> returns the image it was
  given, unchanged, and raises nothing.
\<close>

theorem crop_card_no_boxes:
  assumes "yolo_model L (Some img) = Inr rs" and "concat rs = []"
  shows "crop_card L (Some img) = (Inr (Some img), [Detect (Some img)])"
proof -
  have "scan_boxes rs = (None, 0)"
    unfolding scan_boxes_concat assms(2) by simp
  then show ?thesis
    by (simp add: crop_card_def assms(1) run_defs)
qed


lemma area_big_box: "area big_box = 280"
proof (rule area_eval [where w = 20 and h = 14])
  show "xyxy big_box = (5.5, 6.5, 25.5, 20.5)" by (simp add: big_box_def)
  show "f32 (25.5 - 5.5) = (20::real)"
    by (subst f32_at [of 4]) (simp_all add: pow2_def round_even_def)
  show "f32 (20.5 - 6.5) = (14::real)"
    by (subst f32_at [of 3]) (simp_all add: pow2_def round_even_def)
  show "f32 (20 * 14) = (280::real)"
    by (subst f32_at [of 8]) (simp_all add: pow2_def round_even_def)
qed

lemma area_small_box: "area small_box = 36"
proof (rule area_eval [where w = 6 and h = 6])
  show "xyxy small_box = (12, 12, 18, 18)" by (simp add: small_box_def)
  show "f32 (18 - 12) = (6::real)"
    by (subst f32_at [of 2]) (simp_all add: pow2_def round_even_def)
  show "f32 (18 - 12) = (6::real)"
    by (subst f32_at [of 2]) (simp_all add: pow2_def round_even_def)
  show "f32 (6 * 6) = (36::real)"
    by (subst f32_at [of 5]) (simp_all add: pow2_def round_even_def)
qed

lemma test_scan: "fst (scan_boxes [[big_box, small_box]]) = Some (5, 6, 25, 20)"
proof -
  have "int_box big_box = (5, 6, 25, 20)"
    by (simp add: int_box_def big_box_def py_int_def)
  then show ?thesis
    by (simp add: scan_boxes_def box_step_gt box_step_le area_big_box area_small_box)
qed



theorem crop_card_no_boxes_witness:
  "yolo_model test_libs (Some (blank_image)) = Inr [[]]
   \<and> concat [[]::box list] = []
   \<and> crop_card test_libs (Some (blank_image))
       = (Inr (Some (blank_image)), [Detect (Some (blank_image))])"
proof -
  have h1: "yolo_model test_libs (Some (blank_image)) = Inr [[]]"
    by (simp add: test_libs_def test_image_def blank_image_def)
  have h2: "concat [[]::box list] = []" by simp
  show ?thesis using h1 h2 crop_card_no_boxes [OF h1 h2] by simp
qed

section \<open>The object tagger\<close>










section \<open>The endpoint layer\<close>

lemma get_dict: "get (PDict kvs) k = Inr (case map_of kvs k of None \<Rightarrow> PNone | Some v \<Rightarrow> v)"
  by (simp add: get_def)

lemma verify_cnic_falsy:
  "get data ''image'' = Inr v \<Longrightarrow> \<not> truthy v \<Longrightarrow>
   verify_cnic L (Inr data) = (jsonify [(''error'', PStr ''No image provided'')] 400, [])"
  by (simp add: verify_cnic_def verify_cnic_try_def catch_all_def run_defs)

lemma shop_verify_falsy:
  "get data ''image'' = Inr v \<Longrightarrow> \<not> truthy v \<Longrightarrow>
   shop_verify L (Inr data) = (jsonify [(''error'', PStr ''No image provided'')] 400, [])"
  by (simp add: shop_verify_def shop_verify_try_def catch_all_def run_defs)

lemma face_verify_falsy:
  "get data ''image1'' = Inr v1 \<Longrightarrow> get data ''image2'' = Inr v2 \<Longrightarrow>
   \<not> truthy v1 \<or> \<not> truthy v2 \<Longrightarrow>
   face_verify L (Inr data) = (jsonify [(''error'', PStr ''image1 and image2 required'')] 400, [])"
  by (auto simp: face_verify_def face_verify_try_def catch_all_def run_defs)

text \<open>
  C7: a POST to \<^verbatim>\<open>/face-verify\<close> whose JSON object has no \<^verbatim>\<open>image1\<close>, or no
  \<^verbatim>\<open>image2\<close>, is answered with status 400 and the handler calls no library at all,
  so neither the decoder nor the face model runs. The same holds for \<^verbatim>\<open>/verify-cnic\<close>
  and \<^verbatim>\<open>/shop-verify\<close> when \<^verbatim>\<open>image\<close> is missing.
\<close>

theorem missing_field_is_400:
  "(map_of kvs ''image1'' = None \<or> map_of kvs ''image2'' = None \<longrightarrow>
      face_verify L (Inr (PDict kvs))
        = (jsonify [(''error'', PStr ''image1 and image2 required'')] 400, []))
   \<and> (map_of kvs ''image'' = None \<longrightarrow>
      verify_cnic L (Inr (PDict kvs)) = (jsonify [(''error'', PStr ''No image provided'')] 400, [])
    \<and> shop_verify L (Inr (PDict kvs)) = (jsonify [(''error'', PStr ''No image provided'')] 400, []))"
proof -
  have "face_verify L (Inr (PDict kvs))
        = (jsonify [(''error'', PStr ''image1 and image2 required'')] 400, [])"
    if "map_of kvs ''image1'' = None \<or> map_of kvs ''image2'' = None"
    using that by (intro face_verify_falsy [OF get_dict get_dict]) (auto split: option.splits)
  moreover have "verify_cnic L (Inr (PDict kvs)) = (jsonify [(''error'', PStr ''No image provided'')] 400, [])
    \<and> shop_verify L (Inr (PDict kvs)) = (jsonify [(''error'', PStr ''No image provided'')] 400, [])"
    if "map_of kvs ''image'' = None"
    using that verify_cnic_falsy [where data = "PDict kvs" and v = PNone and L = L]
      shop_verify_falsy [where data = "PDict kvs" and v = PNone and L = L]
    by (simp add: get_def)
  ultimately show ?thesis by blast
qed

theorem missing_field_is_400_witness:
  "map_of [(''image2'', PStr ''QUJD'')] ''image1'' = None
   \<and> map_of [(''image2'', PStr ''QUJD'')] ''image'' = None
   \<and> face_verify test_libs (Inr (PDict [(''image2'', PStr ''QUJD'')]))
        = (\<lparr>status = 400, body = PDict [(''error'', PStr ''image1 and image2 required'')]\<rparr>, [])
   \<and> verify_cnic test_libs (Inr (PDict [(''image2'', PStr ''QUJD'')]))
        = (\<lparr>status = 400, body = PDict [(''error'', PStr ''No image provided'')]\<rparr>, [])
   \<and> shop_verify test_libs (Inr (PDict [(''image2'', PStr ''QUJD'')]))
        = (\<lparr>status = 400, body = PDict [(''error'', PStr ''No image provided'')]\<rparr>, [])"
  using missing_field_is_400 [of "[(''image2'', PStr ''QUJD'')]" test_libs]
  by (simp add: jsonify_def)

lemma map_of_removed: "map_of (filter (\<lambda>p. fst p \<noteq> k) kvs) k = None"
  by (induction kvs) auto

text \<open>
  C10: a required field that is present with a falsy value (\<^verbatim>\<open>null\<close>, \<^verbatim>\<open>""\<close>,
  \<^verbatim>\<open>0\<close>, \<^verbatim>\<open>false\<close>, \<^verbatim>\<open>[]\<close>, \<^verbatim>\<open>{}\<close>) is answered as a missing one is: status
  400, the same body, no library called, hence no decoding attempted; the response is
  the response to the same body with the field removed.
\<close>

theorem falsy_field_is_400:
  assumes "map_of kvs k = Some v" and "\<not> truthy v"
  shows "(k = ''image'' \<longrightarrow>
            verify_cnic L (Inr (PDict kvs)) = (jsonify [(''error'', PStr ''No image provided'')] 400, [])
          \<and> shop_verify L (Inr (PDict kvs)) = (jsonify [(''error'', PStr ''No image provided'')] 400, [])
          \<and> verify_cnic L (Inr (PDict kvs)) = verify_cnic L (Inr (PDict (filter (\<lambda>p. fst p \<noteq> k) kvs)))
          \<and> shop_verify L (Inr (PDict kvs)) = shop_verify L (Inr (PDict (filter (\<lambda>p. fst p \<noteq> k) kvs))))
       \<and> (k = ''image1'' \<or> k = ''image2'' \<longrightarrow>
            face_verify L (Inr (PDict kvs))
              = (jsonify [(''error'', PStr ''image1 and image2 required'')] 400, [])
          \<and> face_verify L (Inr (PDict kvs)) = face_verify L (Inr (PDict (filter (\<lambda>p. fst p \<noteq> k) kvs))))"
proof -
  let ?kvs' = "filter (\<lambda>p. fst p \<noteq> k) kvs"
  have gone: "get (PDict ?kvs') k = Inr PNone"
    by (simp add: get_def map_of_removed)
  have here: "get (PDict kvs) k = Inr v"
    using assms(1) by (simp add: get_def)
  have img: "verify_cnic L (Inr (PDict kvs)) = (jsonify [(''error'', PStr ''No image provided'')] 400, [])
          \<and> shop_verify L (Inr (PDict kvs)) = (jsonify [(''error'', PStr ''No image provided'')] 400, [])
          \<and> verify_cnic L (Inr (PDict kvs)) = verify_cnic L (Inr (PDict ?kvs'))
          \<and> shop_verify L (Inr (PDict kvs)) = shop_verify L (Inr (PDict ?kvs'))"
    if "k = ''image''"
    using here gone assms(2) unfolding that
    by (simp add: verify_cnic_falsy shop_verify_falsy)
  have face: "face_verify L (Inr (PDict kvs))
              = (jsonify [(''error'', PStr ''image1 and image2 required'')] 400, [])
          \<and> face_verify L (Inr (PDict kvs)) = face_verify L (Inr (PDict ?kvs'))"
    if k: "k = ''image1'' \<or> k = ''image2''"
  proof -
    have a: "face_verify L (Inr (PDict kvs))
              = (jsonify [(''error'', PStr ''image1 and image2 required'')] 400, [])"
      using k assms by (intro face_verify_falsy [OF get_dict get_dict]) auto
    have b: "face_verify L (Inr (PDict ?kvs'))
              = (jsonify [(''error'', PStr ''image1 and image2 required'')] 400, [])"
      using k by (intro face_verify_falsy [OF get_dict get_dict]) (auto simp: map_of_removed)
    from a b show ?thesis by simp
  qed
  from img face show ?thesis by blast
qed

theorem falsy_field_is_400_witness:
  "map_of [(''image'', PStr ''''), (''image1'', PNone), (''image2'', PStr ''QUJD'')] ''image'' = Some (PStr '''')
   \<and> \<not> truthy (PStr '''')
   \<and> map_of [(''image'', PStr ''''), (''image1'', PNone), (''image2'', PStr ''QUJD'')] ''image1'' = Some PNone
   \<and> \<not> truthy PNone
   \<and> verify_cnic test_libs (Inr (PDict [(''image'', PStr ''''), (''image1'', PNone), (''image2'', PStr ''QUJD'')]))
       = (\<lparr>status = 400, body = PDict [(''error'', PStr ''No image provided'')]\<rparr>, [])
   \<and> shop_verify test_libs (Inr (PDict [(''image'', PStr ''''), (''image1'', PNone), (''image2'', PStr ''QUJD'')]))
       = (\<lparr>status = 400, body = PDict [(''error'', PStr ''No image provided'')]\<rparr>, [])
   \<and> face_verify test_libs (Inr (PDict [(''image'', PStr ''''), (''image1'', PNone), (''image2'', PStr ''QUJD'')]))
       = (\<lparr>status = 400, body = PDict [(''error'', PStr ''image1 and image2 required'')]\<rparr>, [])"
  using falsy_field_is_400 [of "[(''image'', PStr ''''), (''image1'', PNone), (''image2'', PStr ''QUJD'')]" "''image''" "PStr ''''" test_libs]
    falsy_field_is_400 [of "[(''image'', PStr ''''), (''image1'', PNone), (''image2'', PStr ''QUJD'')]" "''image1''" "PNone" test_libs]
  by (simp add: jsonify_def)


lemma decode_image_error_form:
  "decode_image L v = (Inl e, t) \<Longrightarrow> \<exists>m. e = Exc ''ValueError'' (''Invalid image input: '' @ m)"
  by (auto simp: decode_image_def split: prod.splits sum.splits)

lemma verify_cnic_decode_fails:
  "get data ''image'' = Inr v \<Longrightarrow> truthy v \<Longrightarrow> decode_image L v = (Inl e, t) \<Longrightarrow>
   verify_cnic L (Inr data) = (jsonify [(''error'', PStr (exc_str e))] 500, t)"
  by (simp add: verify_cnic_def verify_cnic_try_def catch_all_def run_defs)

lemma shop_verify_decode_fails:
  "get data ''image'' = Inr v \<Longrightarrow> truthy v \<Longrightarrow> decode_image L v = (Inl e, t) \<Longrightarrow>
   shop_verify L (Inr data) = (jsonify [(''error'', PStr (exc_str e))] 500, t)"
  by (simp add: shop_verify_def shop_verify_try_def catch_all_def run_defs)

lemma face_verify_decode1_fails:
  "get data ''image1'' = Inr v1 \<Longrightarrow> truthy v1 \<Longrightarrow> get data ''image2'' = Inr v2 \<Longrightarrow> truthy v2 \<Longrightarrow>
   decode_image L v1 = (Inl e, t) \<Longrightarrow>
   face_verify L (Inr data) = (jsonify [(''error'', PStr (exc_str e))] 500, t)"
  by (simp add: face_verify_def face_verify_try_def catch_all_def run_defs)

lemma face_verify_decode2_fails:
  "get data ''image1'' = Inr v1 \<Longrightarrow> truthy v1 \<Longrightarrow> get data ''image2'' = Inr v2 \<Longrightarrow> truthy v2 \<Longrightarrow>
   decode_image L v1 = (Inr i1, t1) \<Longrightarrow> decode_image L v2 = (Inl e, t2) \<Longrightarrow>
   face_verify L (Inr data) = (jsonify [(''error'', PStr (exc_str e))] 500, t1 @ t2)"
  by (simp add: face_verify_def face_verify_try_def catch_all_def run_defs)

lemma test_decode_QUJ:
  "decode_image test_libs (PStr ''QUJ'')
     = (Inl (Exc ''ValueError'' ''Invalid image input: Incorrect padding''), [B64Decode ''QUJ''])"
  by (simp add: decode_image_def decode_image_try_def strip_header_def to_bytes_def run_defs test_libs_def)

lemma test_decode_QUJD:
  "decode_image test_libs (PStr ''QUJD'')
     = (Inr (Some test_image), [B64Decode ''QUJD'', FromBuffer (PBytes [0x41, 0x42, 0x43]), ImDecode [0x41, 0x42, 0x43]])"
  by (simp add: decode_image_def decode_image_try_def strip_header_def to_bytes_def run_defs test_libs_def)

text \<open>
  C2 as the specification has it (image data that cannot be decoded is answered with a
  4xx status) fails: for the base64 text \<^verbatim>\<open>QUJ\<close>, on which the decoder raises, the
  handler answers with status 500.
\<close>

theorem undecodable_image_counterexample:
  "fst (decode_image test_libs (PStr ''QUJ'')) = Inl (Exc ''ValueError'' ''Invalid image input: Incorrect padding'')
   \<and> verify_cnic test_libs (Inr (PDict [(''image'', PStr ''QUJ'')]))
       = (\<lparr>status = 500, body = PDict [(''error'', PStr ''Invalid image input: Incorrect padding'')]\<rparr>, [B64Decode ''QUJ''])
   \<and> \<not> (400 \<le> status (fst (verify_cnic test_libs (Inr (PDict [(''image'', PStr ''QUJ'')]))))
        \<and> status (fst (verify_cnic test_libs (Inr (PDict [(''image'', PStr ''QUJ'')])))) < 500)"
  by (simp add: test_decode_QUJ verify_cnic_def verify_cnic_try_def catch_all_def run_defs get_def jsonify_def)

text \<open>
  C2, amended: when \<open>decode_image\<close> raises on the image data of a POST request, the
  endpoint answers with status 500 and the body \<^verbatim>\<open>{"error": "Invalid image input: ..."}\<close>,
  the text of the decoder's exception. (Image data on which the decoder returns
  \<^verbatim>\<open>None\<close> is outside this statement.)
\<close>

theorem undecodable_image_is_500:
  assumes "truthy v" and "decode_image L v = (Inl e, t)"
  shows "(\<exists>m. exc_str e = ''Invalid image input: '' @ m)
       \<and> (get data ''image'' = Inr v \<longrightarrow>
            verify_cnic L (Inr data) = (jsonify [(''error'', PStr (exc_str e))] 500, t)
          \<and> shop_verify L (Inr data) = (jsonify [(''error'', PStr (exc_str e))] 500, t))
       \<and> (get data ''image1'' = Inr v \<and> get data ''image2'' = Inr v2 \<and> truthy v2 \<longrightarrow>
            face_verify L (Inr data) = (jsonify [(''error'', PStr (exc_str e))] 500, t))
       \<and> (get data ''image2'' = Inr v \<and> get data ''image1'' = Inr v1 \<and> truthy v1
            \<and> decode_image L v1 = (Inr i1, t1) \<longrightarrow>
            face_verify L (Inr data) = (jsonify [(''error'', PStr (exc_str e))] 500, t1 @ t))"
  using assms decode_image_error_form [OF assms(2)]
  by (auto simp: verify_cnic_decode_fails shop_verify_decode_fails
        face_verify_decode1_fails face_verify_decode2_fails)

theorem undecodable_image_is_500_witness:
  "truthy (PStr ''QUJ'') \<and> truthy (PStr ''QUJD'')
   \<and> decode_image test_libs (PStr ''QUJ'')
       = (Inl (Exc ''ValueError'' ''Invalid image input: Incorrect padding''), [B64Decode ''QUJ''])
   \<and> get (PDict [(''image'', PStr ''QUJ''), (''image1'', PStr ''QUJ''), (''image2'', PStr ''QUJD'')]) ''image'' = Inr (PStr ''QUJ'')
   \<and> get (PDict [(''image'', PStr ''QUJ''), (''image1'', PStr ''QUJ''), (''image2'', PStr ''QUJD'')]) ''image1'' = Inr (PStr ''QUJ'')
   \<and> get (PDict [(''image'', PStr ''QUJ''), (''image1'', PStr ''QUJ''), (''image2'', PStr ''QUJD'')]) ''image2'' = Inr (PStr ''QUJD'')
   \<and> verify_cnic test_libs (Inr (PDict [(''image'', PStr ''QUJ''), (''image1'', PStr ''QUJ''), (''image2'', PStr ''QUJD'')]))
       = (\<lparr>status = 500, body = PDict [(''error'', PStr ''Invalid image input: Incorrect padding'')]\<rparr>, [B64Decode ''QUJ''])
   \<and> shop_verify test_libs (Inr (PDict [(''image'', PStr ''QUJ''), (''image1'', PStr ''QUJ''), (''image2'', PStr ''QUJD'')]))
       = (\<lparr>status = 500, body = PDict [(''error'', PStr ''Invalid image input: Incorrect padding'')]\<rparr>, [B64Decode ''QUJ''])
   \<and> face_verify test_libs (Inr (PDict [(''image'', PStr ''QUJ''), (''image1'', PStr ''QUJ''), (''image2'', PStr ''QUJD'')]))
       = (\<lparr>status = 500, body = PDict [(''error'', PStr ''Invalid image input: Incorrect padding'')]\<rparr>, [B64Decode ''QUJ''])
   \<and> get (PDict [(''image1'', PStr ''QUJD''), (''image2'', PStr ''QUJ'')]) ''image2'' = Inr (PStr ''QUJ'')
   \<and> get (PDict [(''image1'', PStr ''QUJD''), (''image2'', PStr ''QUJ'')]) ''image1'' = Inr (PStr ''QUJD'')
   \<and> decode_image test_libs (PStr ''QUJD'')
       = (Inr (Some test_image), [B64Decode ''QUJD'', FromBuffer (PBytes [0x41, 0x42, 0x43]), ImDecode [0x41, 0x42, 0x43]])
   \<and> face_verify test_libs (Inr (PDict [(''image1'', PStr ''QUJD''), (''image2'', PStr ''QUJ'')]))
       = (\<lparr>status = 500, body = PDict [(''error'', PStr ''Invalid image input: Incorrect padding'')]\<rparr>,
          [B64Decode ''QUJD'', FromBuffer (PBytes [0x41, 0x42, 0x43]), ImDecode [0x41, 0x42, 0x43], B64Decode ''QUJ''])"
proof -
  let ?d = "PDict [(''image'', PStr ''QUJ''), (''image1'', PStr ''QUJ''), (''image2'', PStr ''QUJD'')]"
  let ?d2 = "PDict [(''image1'', PStr ''QUJD''), (''image2'', PStr ''QUJ'')]"
  have t: "truthy (PStr ''QUJ'')" by simp
  note a = undecodable_image_is_500 [OF t test_decode_QUJ, of ?d "PStr ''QUJD''" "PStr ''QUJ''" "Some test_image" "[]"]
  note b = undecodable_image_is_500 [OF t test_decode_QUJ, of ?d2 "PStr ''QUJD''" "PStr ''QUJD''" "Some test_image"
              "[B64Decode ''QUJD'', FromBuffer (PBytes [0x41, 0x42, 0x43]), ImDecode [0x41, 0x42, 0x43]]"]
  show ?thesis using a b by (simp add: test_decode_QUJ test_decode_QUJD get_def jsonify_def)
qed


lemma catch_all_Inl: "m = (Inl e, t) \<Longrightarrow> catch_all m = (jsonify [(''error'', PStr (exc_str e))] 500, t)"
  by (simp add: catch_all_def)

lemma status_verify_cnic: "status (fst (verify_cnic L rq)) \<in> {200, 400, 500}"
  by (auto simp: verify_cnic_def verify_cnic_try_def catch_all_def run_defs jsonify_def
           split: sum.splits prod.splits)

lemma status_face_verify: "status (fst (face_verify L rq)) \<in> {200, 400, 500}"
  by (auto simp: face_verify_def face_verify_try_def catch_all_def run_defs jsonify_def
           split: sum.splits prod.splits)

lemma status_shop_verify: "status (fst (shop_verify L rq)) \<in> {200, 400, 500}"
  by (auto simp: shop_verify_def shop_verify_try_def catch_all_def run_defs jsonify_def
           split: sum.splits prod.splits)

lemma crop_card_detector_raises:
  "yolo_model L img = Inl e \<Longrightarrow> crop_card L img = (Inl e, [Detect img])"
  by (simp add: crop_card_def run_defs)

lemma verify_cnic_crop_raises:
  "get data ''image'' = Inr v \<Longrightarrow> truthy v \<Longrightarrow> decode_image L v = (Inr img, t) \<Longrightarrow>
   crop_card L img = (Inl e, t2) \<Longrightarrow>
   verify_cnic L (Inr data) = (jsonify [(''error'', PStr (exc_str e))] 500, t @ t2)"
  by (simp add: verify_cnic_def verify_cnic_try_def catch_all_def run_defs)

lemma verify_cnic_reader_raises:
  "get data ''image'' = Inr v \<Longrightarrow> truthy v \<Longrightarrow> decode_image L v = (Inr img, t) \<Longrightarrow>
   crop_card L img = (Inr cropped, t2) \<Longrightarrow> readtext L cropped = Inl e \<Longrightarrow>
   verify_cnic L (Inr data) = (jsonify [(''error'', PStr (exc_str e))] 500, t @ t2 @ [ReadText cropped])"
  by (simp add: verify_cnic_def verify_cnic_try_def catch_all_def run_defs)

lemma face_verify_model_raises:
  "get data ''image1'' = Inr v1 \<Longrightarrow> truthy v1 \<Longrightarrow> get data ''image2'' = Inr v2 \<Longrightarrow> truthy v2 \<Longrightarrow>
   decode_image L v1 = (Inr img1, t1) \<Longrightarrow> decode_image L v2 = (Inr img2, t2) \<Longrightarrow>
   DeepFace_verify L img1 img2 = Inl e \<Longrightarrow>
   face_verify L (Inr data)
     = (jsonify [(''error'', PStr (exc_str e))] 500, t1 @ t2 @ [FaceVerify img1 img2])"
  by (simp add: face_verify_def face_verify_try_def catch_all_def run_defs)

lemma shop_verify_detector_raises:
  "get data ''image'' = Inr v \<Longrightarrow> truthy v \<Longrightarrow> decode_image L v = (Inr img, t) \<Longrightarrow>
   yolo_model L img = Inl e \<Longrightarrow>
   shop_verify L (Inr data) = (jsonify [(''error'', PStr (exc_str e))] 500, t @ [Detect img])"
  by (simp add: shop_verify_def shop_verify_try_def catch_all_def run_defs)

lemma shop_verify_reader_raises:
  "get data ''image'' = Inr v \<Longrightarrow> truthy v \<Longrightarrow> decode_image L v = (Inr img, t) \<Longrightarrow>
   yolo_model L img = Inr rs \<Longrightarrow> tag_results L rs [] = Inr ds \<Longrightarrow> readtext L img = Inl e \<Longrightarrow>
   shop_verify L (Inr data)
     = (jsonify [(''error'', PStr (exc_str e))] 500, t @ [Detect img, ReadText img])"
  by (simp add: shop_verify_def shop_verify_try_def catch_all_def run_defs)

text \<open>
  C8: whatever exception the body of a handler raises, the handler returns a response
  with status 500 whose \<^verbatim>\<open>error\<close> field is the exception's text; every response has
  status 200, 400 or 500. In particular an exception of \<open>decode_image\<close>, of the detector,
  of the OCR reader or of the face model ends in that response, after the library calls
  made up to the failing one.
\<close>

theorem exceptions_become_500:
  "(verify_cnic_try L rq = (Inl e, t) \<longrightarrow>
      verify_cnic L rq = (jsonify [(''error'', PStr (exc_str e))] 500, t))
   \<and> (face_verify_try L rq = (Inl e, t) \<longrightarrow>
      face_verify L rq = (jsonify [(''error'', PStr (exc_str e))] 500, t))
   \<and> (shop_verify_try L rq = (Inl e, t) \<longrightarrow>
      shop_verify L rq = (jsonify [(''error'', PStr (exc_str e))] 500, t))
   \<and> status (fst (verify_cnic L rq)) \<in> {200, 400, 500}
   \<and> status (fst (face_verify L rq)) \<in> {200, 400, 500}
   \<and> status (fst (shop_verify L rq)) \<in> {200, 400, 500}
   \<and> (get data ''image'' = Inr v \<and> truthy v \<longrightarrow>
        (decode_image L v = (Inl e, t) \<longrightarrow>
           verify_cnic L (Inr data) = (jsonify [(''error'', PStr (exc_str e))] 500, t)
         \<and> shop_verify L (Inr data) = (jsonify [(''error'', PStr (exc_str e))] 500, t))
      \<and> (decode_image L v = (Inr img, t) \<and> yolo_model L img = Inl e \<longrightarrow>
           verify_cnic L (Inr data) = (jsonify [(''error'', PStr (exc_str e))] 500, t @ [Detect img])
         \<and> shop_verify L (Inr data) = (jsonify [(''error'', PStr (exc_str e))] 500, t @ [Detect img]))
      \<and> (decode_image L v = (Inr img, t) \<and> crop_card L img = (Inr cropped, t2)
            \<and> readtext L cropped = Inl e \<longrightarrow>
           verify_cnic L (Inr data)
             = (jsonify [(''error'', PStr (exc_str e))] 500, t @ t2 @ [ReadText cropped]))
      \<and> (decode_image L v = (Inr img, t) \<and> yolo_model L img = Inr rs
            \<and> tag_results L rs [] = Inr ds \<and> readtext L img = Inl e \<longrightarrow>
           shop_verify L (Inr data)
             = (jsonify [(''error'', PStr (exc_str e))] 500, t @ [Detect img, ReadText img])))
   \<and> (get data ''image1'' = Inr v1 \<and> truthy v1 \<and> get data ''image2'' = Inr v2 \<and> truthy v2 \<longrightarrow>
        (decode_image L v1 = (Inl e, t) \<longrightarrow>
           face_verify L (Inr data) = (jsonify [(''error'', PStr (exc_str e))] 500, t))
      \<and> (decode_image L v1 = (Inr img1, t1) \<and> decode_image L v2 = (Inr img2, t2)
            \<and> DeepFace_verify L img1 img2 = Inl e \<longrightarrow>
           face_verify L (Inr data)
             = (jsonify [(''error'', PStr (exc_str e))] 500, t1 @ t2 @ [FaceVerify img1 img2])))"
proof -
  have g: "verify_cnic_try L rq = (Inl e, t) \<longrightarrow>
      verify_cnic L rq = (jsonify [(''error'', PStr (exc_str e))] 500, t)"
    "face_verify_try L rq = (Inl e, t) \<longrightarrow>
      face_verify L rq = (jsonify [(''error'', PStr (exc_str e))] 500, t)"
    "shop_verify_try L rq = (Inl e, t) \<longrightarrow>
      shop_verify L rq = (jsonify [(''error'', PStr (exc_str e))] 500, t)"
    by (simp_all add: verify_cnic_def face_verify_def shop_verify_def catch_all_Inl)
  have cnic_det: "verify_cnic L (Inr data) = (jsonify [(''error'', PStr (exc_str e))] 500, t @ [Detect img])"
    if "get data ''image'' = Inr v" "truthy v" "decode_image L v = (Inr img, t)" "yolo_model L img = Inl e"
    using verify_cnic_crop_raises [OF that(1-3) crop_card_detector_raises [OF that(4)]] .
  show ?thesis
    using g cnic_det status_verify_cnic [of L rq] status_face_verify [of L rq] status_shop_verify [of L rq]
    by (intro conjI impI; (elim conjE)?;
        simp add: verify_cnic_decode_fails shop_verify_decode_fails face_verify_decode1_fails
          verify_cnic_reader_raises face_verify_model_raises shop_verify_detector_raises
          shop_verify_reader_raises)
qed


lemma decode_QUJD:
  "b64decode L ''QUJD'' = Inr [0x41, 0x42, 0x43] \<Longrightarrow>
   frombuffer L (PBytes [0x41, 0x42, 0x43]) = Inr [0x41, 0x42, 0x43] \<Longrightarrow>
   imdecode L [0x41, 0x42, 0x43] = Inr (Some test_image) \<Longrightarrow>
   decode_image L (PStr ''QUJD'')
     = (Inr (Some test_image),
        [B64Decode ''QUJD'', FromBuffer (PBytes [0x41, 0x42, 0x43]), ImDecode [0x41, 0x42, 0x43]])"
  by (simp add: decode_image_def decode_image_try_def strip_header_def to_bytes_def run_defs)

lemma no_detector_decode:
  "decode_image no_detector_libs (PStr ''QUJD'')
     = (Inr (Some test_image),
        [B64Decode ''QUJD'', FromBuffer (PBytes [0x41, 0x42, 0x43]), ImDecode [0x41, 0x42, 0x43]])"
  by (rule decode_QUJD) (simp_all add: no_detector_libs_def test_libs_def)

lemma no_reader_decode:
  "decode_image no_reader_libs (PStr ''QUJD'')
     = (Inr (Some test_image),
        [B64Decode ''QUJD'', FromBuffer (PBytes [0x41, 0x42, 0x43]), ImDecode [0x41, 0x42, 0x43]])"
  by (rule decode_QUJD) (simp_all add: no_reader_libs_def test_libs_def)

lemma no_reader_crop:
  "crop_card no_reader_libs (Some test_image)
     = (Inr (Some (crop test_image 0 30 0 35)), [Detect (Some test_image)])"
proof -
  have "yolo_model no_reader_libs (Some test_image) = Inr [[big_box, small_box]]"
    by (simp add: no_reader_libs_def test_libs_def)
  then show ?thesis
    by (simp add: crop_card_def test_scan run_defs Let_def test_image_def)
qed

theorem exceptions_become_500_witness:
  "verify_cnic_try test_libs (Inl (Exc ''BadRequest'' ''400 Bad Request'')) = (Inl (Exc ''BadRequest'' ''400 Bad Request''), [])
   \<and> face_verify_try test_libs (Inl (Exc ''BadRequest'' ''400 Bad Request'')) = (Inl (Exc ''BadRequest'' ''400 Bad Request''), [])
   \<and> shop_verify_try test_libs (Inl (Exc ''BadRequest'' ''400 Bad Request'')) = (Inl (Exc ''BadRequest'' ''400 Bad Request''), [])
   \<and> verify_cnic test_libs (Inl (Exc ''BadRequest'' ''400 Bad Request''))
       = (\<lparr>status = 500, body = PDict [(''error'', PStr ''400 Bad Request'')]\<rparr>, [])
   \<and> face_verify test_libs (Inl (Exc ''BadRequest'' ''400 Bad Request''))
       = (\<lparr>status = 500, body = PDict [(''error'', PStr ''400 Bad Request'')]\<rparr>, [])
   \<and> shop_verify test_libs (Inl (Exc ''BadRequest'' ''400 Bad Request''))
       = (\<lparr>status = 500, body = PDict [(''error'', PStr ''400 Bad Request'')]\<rparr>, [])
   \<and> fst (verify_cnic test_libs (Inr (PDict [(''image'', PStr ''QUJ'')])))
       = \<lparr>status = 500, body = PDict [(''error'', PStr ''Invalid image input: Incorrect padding'')]\<rparr>
   \<and> fst (shop_verify test_libs (Inr (PDict [(''image'', PStr ''QUJ'')])))
       = \<lparr>status = 500, body = PDict [(''error'', PStr ''Invalid image input: Incorrect padding'')]\<rparr>
   \<and> fst (face_verify test_libs (Inr (PDict [(''image1'', PStr ''QUJ''), (''image2'', PStr ''QUJD'')])))
       = \<lparr>status = 500, body = PDict [(''error'', PStr ''Invalid image input: Incorrect padding'')]\<rparr>
   \<and> yolo_model no_detector_libs (Some test_image) = Inl (Exc ''RuntimeError'' ''detector failed'')
   \<and> fst (verify_cnic no_detector_libs (Inr (PDict [(''image'', PStr ''QUJD'')])))
       = \<lparr>status = 500, body = PDict [(''error'', PStr ''detector failed'')]\<rparr>
   \<and> fst (shop_verify no_detector_libs (Inr (PDict [(''image'', PStr ''QUJD'')])))
       = \<lparr>status = 500, body = PDict [(''error'', PStr ''detector failed'')]\<rparr>
   \<and> readtext no_reader_libs (Some test_image) = Inl (Exc ''RuntimeError'' ''reader failed'')
   \<and> fst (verify_cnic no_reader_libs (Inr (PDict [(''image'', PStr ''QUJD'')])))
       = \<lparr>status = 500, body = PDict [(''error'', PStr ''reader failed'')]\<rparr>
   \<and> fst (shop_verify no_reader_libs (Inr (PDict [(''image'', PStr ''QUJD'')])))
       = \<lparr>status = 500, body = PDict [(''error'', PStr ''reader failed'')]\<rparr>
   \<and> DeepFace_verify no_reader_libs (Some test_image) (Some test_image) = Inl (Exc ''ValueError'' ''face model failed'')
   \<and> fst (face_verify no_reader_libs (Inr (PDict [(''image1'', PStr ''QUJD''), (''image2'', PStr ''QUJD'')])))
       = \<lparr>status = 500, body = PDict [(''error'', PStr ''face model failed'')]\<rparr>"
proof -
  let ?bad = "Exc ''BadRequest'' ''400 Bad Request''"
  let ?tr = "[B64Decode ''QUJD'', FromBuffer (PBytes [0x41, 0x42, 0x43]), ImDecode [0x41, 0x42, 0x43]]"
  have tries: "verify_cnic_try test_libs (Inl ?bad) = (Inl ?bad, [])"
    "face_verify_try test_libs (Inl ?bad) = (Inl ?bad, [])"
    "shop_verify_try test_libs (Inl ?bad) = (Inl ?bad, [])"
    by (simp_all add: verify_cnic_try_def face_verify_try_def shop_verify_try_def run_defs)
  have a: "verify_cnic test_libs (Inl ?bad) = (jsonify [(''error'', PStr (exc_str ?bad))] 500, [])
     \<and> face_verify test_libs (Inl ?bad) = (jsonify [(''error'', PStr (exc_str ?bad))] 500, [])
     \<and> shop_verify test_libs (Inl ?bad) = (jsonify [(''error'', PStr (exc_str ?bad))] 500, [])"
    using tries exceptions_become_500 [where L = test_libs and rq = "Inl ?bad" and e = ?bad and t = "[]"]
    by blast
  have b: "verify_cnic test_libs (Inr (PDict [(''image'', PStr ''QUJ'')]))
             = (jsonify [(''error'', PStr ''Invalid image input: Incorrect padding'')] 500, [B64Decode ''QUJ''])
     \<and> shop_verify test_libs (Inr (PDict [(''image'', PStr ''QUJ'')]))
             = (jsonify [(''error'', PStr ''Invalid image input: Incorrect padding'')] 500, [B64Decode ''QUJ''])"
    using exceptions_become_500 [where L = test_libs and data = "PDict [(''image'', PStr ''QUJ'')]"
        and v = "PStr ''QUJ''" and e = "Exc ''ValueError'' ''Invalid image input: Incorrect padding''"
        and t = "[B64Decode ''QUJ'']"]
    by (simp add: test_decode_QUJ get_def)
  have c: "face_verify test_libs (Inr (PDict [(''image1'', PStr ''QUJ''), (''image2'', PStr ''QUJD'')]))
             = (jsonify [(''error'', PStr ''Invalid image input: Incorrect padding'')] 500, [B64Decode ''QUJ''])"
    using exceptions_become_500 [where L = test_libs
        and data = "PDict [(''image1'', PStr ''QUJ''), (''image2'', PStr ''QUJD'')]"
        and ?v1.0 = "PStr ''QUJ''" and ?v2.0 = "PStr ''QUJD''"
        and e = "Exc ''ValueError'' ''Invalid image input: Incorrect padding''"
        and t = "[B64Decode ''QUJ'']"]
    by (simp add: test_decode_QUJ get_def)
  have dy: "yolo_model no_detector_libs (Some test_image) = Inl (Exc ''RuntimeError'' ''detector failed'')"
    by (simp add: no_detector_libs_def)
  have d: "verify_cnic no_detector_libs (Inr (PDict [(''image'', PStr ''QUJD'')]))
             = (jsonify [(''error'', PStr ''detector failed'')] 500, ?tr @ [Detect (Some test_image)])
     \<and> shop_verify no_detector_libs (Inr (PDict [(''image'', PStr ''QUJD'')]))
             = (jsonify [(''error'', PStr ''detector failed'')] 500, ?tr @ [Detect (Some test_image)])"
    using exceptions_become_500 [where L = no_detector_libs and data = "PDict [(''image'', PStr ''QUJD'')]"
        and v = "PStr ''QUJD''" and e = "Exc ''RuntimeError'' ''detector failed''"
        and t = ?tr and img = "Some test_image"]
    by (simp add: no_detector_decode dy get_def)
  have ry: "readtext no_reader_libs img = Inl (Exc ''RuntimeError'' ''reader failed'')" for img
    by (simp add: no_reader_libs_def)
  have yo: "yolo_model no_reader_libs (Some test_image) = Inr [[big_box, small_box]]"
    by (simp add: no_reader_libs_def test_libs_def)
  have tg: "tag_results no_reader_libs [[big_box, small_box]] [] = Inr [''person'']"
    by (simp add: no_reader_libs_def test_libs_def big_box_def small_box_def py_int_def
          literal_0_4_def)
  have f: "verify_cnic no_reader_libs (Inr (PDict [(''image'', PStr ''QUJD'')]))
             = (jsonify [(''error'', PStr ''reader failed'')] 500,
                ?tr @ [Detect (Some test_image)] @ [ReadText (Some (crop test_image 0 30 0 35))])
     \<and> shop_verify no_reader_libs (Inr (PDict [(''image'', PStr ''QUJD'')]))
             = (jsonify [(''error'', PStr ''reader failed'')] 500,
                ?tr @ [Detect (Some test_image), ReadText (Some test_image)])"
    using exceptions_become_500 [where L = no_reader_libs and data = "PDict [(''image'', PStr ''QUJD'')]"
        and v = "PStr ''QUJD''" and e = "Exc ''RuntimeError'' ''reader failed''"
        and t = ?tr and img = "Some test_image" and cropped = "Some (crop test_image 0 30 0 35)"
        and ?t2.0 = "[Detect (Some test_image)]" and rs = "[[big_box, small_box]]" and ds = "[''person'']"]
    by (simp add: no_reader_decode no_reader_crop ry yo tg get_def del: tag_results.simps tag_boxes.simps)
  have fy: "DeepFace_verify no_reader_libs (Some test_image) (Some test_image) = Inl (Exc ''ValueError'' ''face model failed'')"
    by (simp add: no_reader_libs_def)
  have h: "face_verify no_reader_libs (Inr (PDict [(''image1'', PStr ''QUJD''), (''image2'', PStr ''QUJD'')]))
             = (jsonify [(''error'', PStr ''face model failed'')] 500,
                ?tr @ ?tr @ [FaceVerify (Some test_image) (Some test_image)])"
    using exceptions_become_500 [where L = no_reader_libs
        and data = "PDict [(''image1'', PStr ''QUJD''), (''image2'', PStr ''QUJD'')]"
        and ?v1.0 = "PStr ''QUJD''" and ?v2.0 = "PStr ''QUJD''"
        and e = "Exc ''ValueError'' ''face model failed''"
        and ?t1.0 = ?tr and ?t2.0 = ?tr and ?img1.0 = "Some test_image" and ?img2.0 = "Some test_image"]
    by (simp add: no_reader_decode fy get_def)
  show ?thesis
    using tries a b c d f h dy ry fy by (simp add: jsonify_def)
qed

end
